theory Spec2Isabelle
  imports Main "HOL-Library.Sublist"
begin

section \<open>Strings and React children\<close>

text \<open>
  The repository holds two revisions of the instructions modal:
  \<^verbatim>\<open>src/components/InstructionsModal.tsx\<close> (one \<^verbatim>\<open>InstructionStep\<close> per command) and
  \<^verbatim>\<open>src/unnamed/part_000\<close> (one block of commands per machine). Definitions taken
  from the second file carry the suffix \<open>_000\<close>; everything else is shared or belongs to
  the first file.

  A \<^verbatim>\<open>React.ReactNode\<close> passed as \<^verbatim>\<open>children\<close> of a \<^verbatim>\<open>CodeBlock\<close> is a string or an
  array of strings: these are the two shapes that \<^verbatim>\<open>handleCopy\<close> tells apart
  (\<^verbatim>\<open>Array.isArray\<close> in part_000). Other node kinds (null, numbers, elements) are never
  passed by either modal and are outside the model.
\<close>

datatype react_node = Str string | Arr "string list"

text \<open>JavaScript truthiness, as used by \<^verbatim>\<open>!children\<close>: the empty string is falsy, every
  array (the empty one too) is truthy.\<close>

fun truthy :: "react_node \<Rightarrow> bool" where
  "truthy (Str s) = (s \<noteq> [])"
| "truthy (Arr xs) = True"

text \<open>\<^verbatim>\<open>Array.prototype.join\<close> on an array of strings.\<close>

fun join :: "string \<Rightarrow> string list \<Rightarrow> string" where
  "join sep [] = []"
| "join sep [x] = x"
| "join sep (x # y # ys) = x @ sep @ join sep (y # ys)"

text \<open>\<^verbatim>\<open>String(children)\<close>: a string is returned as it is, an array is joined with commas.\<close>

fun String_of :: "react_node \<Rightarrow> string" where
  "String_of (Str s) = s"
| "String_of (Arr xs) = join '','' xs"

text \<open>The text that \<^verbatim>\<open><code>{children}</code>\<close> puts on the screen: React renders an array
  of strings as adjacent text nodes.\<close>

fun displayed :: "react_node \<Rightarrow> string" where
  "displayed (Str s) = s"
| "displayed (Arr xs) = concat xs"

section \<open>The CodeBlock component\<close>

text \<open>
  One mounted \<^verbatim>\<open>CodeBlock\<close> together with the part of the browser it talks to.
  \<^item> \<open>children\<close>, \<open>copied\<close>: the prop and the \<^verbatim>\<open>useState(false)\<close> cell;
  \<^item> \<open>mounted\<close>: whether the instance is still in the component tree;
  \<^item> \<open>clock\<close>: the event loop's time in milliseconds;
  \<^item> \<open>inflight\<close>: payloads of \<^verbatim>\<open>navigator.clipboard.writeText\<close> promises not yet settled;
  \<^item> \<open>timers\<close>: deadlines of the pending \<^verbatim>\<open>setTimeout\<close> callbacks, in creation order
    (every callback of this component is \<^verbatim>\<open>() => setCopied(false)\<close>);
  \<^item> \<open>clipboard\<close>: the system clipboard as far as this instance wrote it;
  \<^item> \<open>writes\<close>, \<open>fulfilled\<close>, \<open>unhandled\<close>, \<open>dropped\<close>: history counters that the code does
    not read: every \<^verbatim>\<open>writeText\<close> call, the number of successful writes whose
    \<^verbatim>\<open>then\<close> callback ran, the rejections nobody handles (the promise chain has no
    \<^verbatim>\<open>catch\<close>), and the \<^verbatim>\<open>setCopied\<close> calls that reached an unmounted instance.
\<close>

record CodeBlock =
  children :: react_node
  copied :: bool
  mounted :: bool
  clock :: nat
  inflight :: "string list"
  timers :: "nat list"
  clipboard :: "string option"
  writes :: "string list"
  fulfilled :: nat
  unhandled :: nat
  dropped :: nat

text \<open>Mounting at time \<open>t\<close>: \<^verbatim>\<open>useState(false)\<close>.\<close>

definition mount :: "react_node \<Rightarrow> nat \<Rightarrow> CodeBlock" where
  "mount c t = \<lparr>children = c, copied = False, mounted = True, clock = t, inflight = [],
     timers = [], clipboard = None, writes = [], fulfilled = 0, unhandled = 0, dropped = 0\<rparr>"

text \<open>React discards a state update that reaches an unmounted component; the model counts it.\<close>

definition setCopied :: "bool \<Rightarrow> CodeBlock \<Rightarrow> CodeBlock" where
  "setCopied v s = (if mounted s then s\<lparr>copied := v\<rparr> else s\<lparr>dropped := Suc (dropped s)\<rparr>)"

definition setTimeout :: "nat \<Rightarrow> CodeBlock \<Rightarrow> CodeBlock" where
  "setTimeout ms s = s\<lparr>timers := timers s @ [clock s + ms]\<rparr>"

definition writeText :: "string \<Rightarrow> CodeBlock \<Rightarrow> CodeBlock" where
  "writeText txt s = s\<lparr>writes := writes s @ [txt], inflight := inflight s @ [txt]\<rparr>"

text \<open>\<^verbatim>\<open>handleCopy\<close> of src/components/InstructionsModal.tsx, up to the call of
  \<^verbatim>\<open>writeText\<close>.\<close>

definition handleCopy :: "CodeBlock \<Rightarrow> CodeBlock" where
  "handleCopy s =
     (if \<not> truthy (children s) then s
      else let textToCopy = String_of (children s) in writeText textToCopy s)"

text \<open>\<^verbatim>\<open>handleCopy\<close> of part_000: no test of \<^verbatim>\<open>children\<close>; the text is
  \<^verbatim>\<open>Array.isArray(children) ? children.join('\n') : String(children)\<close>.\<close>

fun textToCopy_000 :: "react_node \<Rightarrow> string" where
  "textToCopy_000 (Arr xs) = join [CHR 0x0A] xs"
| "textToCopy_000 (Str s) = String_of (Str s)"

definition handleCopy_000 :: "CodeBlock \<Rightarrow> CodeBlock" where
  "handleCopy_000 s = (let textToCopy = textToCopy_000 (children s) in writeText textToCopy s)"

text \<open>The callback given to \<^verbatim>\<open>then\<close>, the same in both files.\<close>

definition onFulfilled :: "CodeBlock \<Rightarrow> CodeBlock" where
  "onFulfilled s = setTimeout 2000 (setCopied True s)"

text \<open>Time passes by \<open>d\<close> milliseconds: every timer whose deadline is reached fires (each
  one calls \<^verbatim>\<open>setCopied(false)\<close>), the others stay pending. Timers are taken to fire at
  their deadline.\<close>

fun fire :: "nat list \<Rightarrow> CodeBlock \<Rightarrow> CodeBlock" where
  "fire [] s = s"
| "fire (t # ts) s = fire ts (setCopied False s)"

fun due :: "nat \<Rightarrow> nat list \<Rightarrow> nat list" where
  "due t [] = []"
| "due t (x # xs) = (if x \<le> t then x # due t xs else due t xs)"

fun later :: "nat \<Rightarrow> nat list \<Rightarrow> nat list" where
  "later t [] = []"
| "later t (x # xs) = (if x \<le> t then later t xs else x # later t xs)"

definition elapse :: "nat \<Rightarrow> CodeBlock \<Rightarrow> CodeBlock" where
  "elapse d s =
     (let t = clock s + d
      in fire (due t (timers s)) (s\<lparr>clock := t, timers := later t (timers s)\<rparr>))"

datatype outcome = Fulfilled | Rejected

text \<open>The \<open>k\<close>-th pending clipboard promise settles. On success the clipboard holds the
  payload and the \<^verbatim>\<open>then\<close> callback runs; on rejection nothing of the component runs.\<close>

definition settle :: "nat \<Rightarrow> outcome \<Rightarrow> CodeBlock \<Rightarrow> CodeBlock" where
  "settle k r s =
     (if k < length (inflight s)
      then let p = inflight s ! k;
               s' = s\<lparr>inflight := take k (inflight s) @ drop (Suc k) (inflight s)\<rparr>
           in (case r of
                 Fulfilled \<Rightarrow> onFulfilled (s'\<lparr>clipboard := Some p, fulfilled := Suc (fulfilled s')\<rparr>)
               | Rejected \<Rightarrow> s'\<lparr>unhandled := Suc (unhandled s')\<rparr>)
      else s)"

text \<open>What can happen to an instance: a click on its button, a clipboard promise settling,
  time passing, a re-render with new children, removal from the tree. Neither file has a
  cleanup function, so unmounting touches neither the timers nor the promises.\<close>

datatype event = Click | Settle nat outcome | Elapse nat | Render react_node | Unmount

fun exec :: "(CodeBlock \<Rightarrow> CodeBlock) \<Rightarrow> event \<Rightarrow> CodeBlock \<Rightarrow> CodeBlock" where
  "exec hc Click s = (if mounted s then hc s else s)"
| "exec hc (Settle k r) s = settle k r s"
| "exec hc (Elapse d) s = elapse d s"
| "exec hc (Render c) s = (if mounted s then s\<lparr>children := c\<rparr> else s)"
| "exec hc Unmount s = s\<lparr>mounted := False\<rparr>"

fun run :: "(CodeBlock \<Rightarrow> CodeBlock) \<Rightarrow> event list \<Rightarrow> CodeBlock \<Rightarrow> CodeBlock" where
  "run hc [] s = s"
| "run hc (e # es) s = run hc es (exec hc e s)"

text \<open>The number of fulfilment events in a sequence of events.\<close>

fun fulfilments :: "event list \<Rightarrow> nat" where
  "fulfilments [] = 0"
| "fulfilments (Settle k Fulfilled # es) = Suc (fulfilments es)"
| "fulfilments (e # es) = fulfilments es"

text \<open>The button's label: \<^verbatim>\<open>copied ? 'Copied!' : <ClipboardIcon />\<close>.\<close>

datatype label = Text string | ClipboardIcon

definition button_label :: "CodeBlock \<Rightarrow> label" where
  "button_label s = (if copied s then Text ''Copied!'' else ClipboardIcon)"

section \<open>The modal's command templates\<close>

record Connection =
  name :: string
  serverIp :: string
  clientIp :: string

text \<open>The props of \<^verbatim>\<open>InstructionStep\<close>. \<^verbatim>\<open>explanation\<close> and \<^verbatim>\<open>verification\<close> are static
  prose; only the presence of the optional \<^verbatim>\<open>verification\<close> is kept.\<close>

record InstructionStep =
  step :: string
  title :: string
  command :: "string option"
  verification :: bool

text \<open>\<^verbatim>\<open>{command && <CodeBlock>{command}</CodeBlock>}\<close>: a missing or empty command renders no
  block.\<close>

definition step_block :: "InstructionStep \<Rightarrow> react_node option" where
  "step_block st =
     (case command st of
        None \<Rightarrow> None
      | Some c \<Rightarrow> if c = [] then None else Some (Str c))"

fun blocks_of :: "InstructionStep list \<Rightarrow> react_node list" where
  "blocks_of [] = []"
| "blocks_of (st # sts) =
     (case step_block st of None \<Rightarrow> blocks_of sts | Some b \<Rightarrow> b # blocks_of sts)"

definition server_steps :: "Connection \<Rightarrow> InstructionStep list" where
  "server_steps connection =
    [\<lparr>step = ''1'', title = ''Find Your Default Firewall Zone (Optional)'',
      command = Some ''firewall-cmd --get-default-zone'', verification = True\<rparr>,
     \<lparr>step = ''2'', title = ''Open Firewall Port'',
      command = Some ''sudo firewall-cmd --zone=$(firewall-cmd --get-default-zone) --add-port=4713/tcp --permanent'',
      verification = False\<rparr>,
     \<lparr>step = ''3'', title = ''Reload & Verify Firewall'',
      command = Some ''sudo firewall-cmd --reload && sudo firewall-cmd --zone=$(firewall-cmd --get-default-zone) --list-ports'',
      verification = True\<rparr>,
     \<lparr>step = ''4'', title = ''Enable Network Audio (Temporarily)'',
      command = Some (''pactl load-module module-native-protocol-tcp auth-ip-acl=127.0.0.1;''
                      @ clientIp connection),
      verification = False\<rparr>]"

definition client_steps :: "Connection \<Rightarrow> InstructionStep list" where
  "client_steps connection =
    [\<lparr>step = ''1'', title = ''Test Connection to Server'',
      command = Some (''nc -zv '' @ serverIp connection @ '' 4713''), verification = True\<rparr>,
     \<lparr>step = ''2'', title = ''Set the PULSE_SERVER Environment Variable'',
      command = Some (''export PULSE_SERVER=tcp:'' @ serverIp connection), verification = False\<rparr>,
     \<lparr>step = ''3'', title = ''Test Audio with an Application'',
      command = Some (''mpv --ao=pulse '' @ [CHR 0x22]
                      @ ''https://www.youtube.com/watch?v=dQw4w9WgXcQ'' @ [CHR 0x22]),
      verification = False\<rparr>]"

text \<open>The children of the code blocks that the modal of
  src/components/InstructionsModal.tsx shows in its server and client sections.\<close>

definition server_blocks :: "Connection \<Rightarrow> react_node list" where
  "server_blocks connection = blocks_of (server_steps connection)"

definition client_blocks :: "Connection \<Rightarrow> react_node list" where
  "client_blocks connection = blocks_of (client_steps connection)"

text \<open>part_000: the two command texts. The last line of \<^verbatim>\<open>serverCommands\<close> is written
  between single quotes in the source, so JavaScript does not substitute
  \<^verbatim>\<open>${connection.clientIp}\<close> there; the lines of \<^verbatim>\<open>clientCommands\<close> are template literals.\<close>

definition serverCommands_000 :: "Connection \<Rightarrow> string" where
  "serverCommands_000 connection = join [CHR 0x0A]
    [''# 1. Open PulseAudio Port (4713/tcp) on the server.'',
     ''# This allows the client machine to connect to the PulseAudio daemon.'',
     ''sudo firewall-cmd --add-port=4713/tcp --permanent'',
     '''',
     ''# 2. Reload the firewall to apply the new rule.'',
     ''sudo firewall-cmd --reload'',
     '''',
     ''# 3. Verify the port is open.'',
     ''# You should see 4713/tcp in the output list.'',
     ''sudo firewall-cmd --list-ports'',
     '''',
     ''# NOTE: You may also need to edit /etc/pulse/default.pa on the server to load the TCP module.'',
     ''# Add this line: load-module module-native-protocol-tcp auth-ip-acl=127.0.0.1;${connection.clientIp}'']"

definition clientCommands_000 :: "Connection \<Rightarrow> string" where
  "clientCommands_000 connection = join [CHR 0x0A]
    [''# 1. Test connection to the server's PulseAudio port.'',
     ''# If this command says '' @ [CHR 0x22] @ ''succeeded!'' @ [CHR 0x22]
        @ '', you're ready for the next step.'',
     ''nc -zv '' @ serverIp connection @ '' 4713'',
     '''',
     ''# 2. Set the PULSE_SERVER environment variable.'',
     ''# This tells applications on this client machine to send their audio to the server.'',
     ''export PULSE_SERVER=tcp:'' @ serverIp connection,
     '''',
     ''# 3. Test with an application, like mpv.'',
     ''# The video will play locally, but the audio should come from the server's speakers.'',
     ''mpv --vo=x11 --ao=pulse https://www.youtube.com/watch?v=dQw4w9WgXcQ'']"

definition server_blocks_000 :: "Connection \<Rightarrow> react_node list" where
  "server_blocks_000 connection = [Str (serverCommands_000 connection)]"

definition client_blocks_000 :: "Connection \<Rightarrow> react_node list" where
  "client_blocks_000 connection = [Str (clientCommands_000 connection)]"

text \<open>Some block of the list shows the given text as a contiguous substring.\<close>

fun shown_in :: "string \<Rightarrow> react_node list \<Rightarrow> bool" where
  "shown_in txt [] = False"
| "shown_in txt (b # bs) = (sublist txt (displayed b) \<or> shown_in txt bs)"

definition office :: Connection where
  "office = \<lparr>name = ''Office'', serverIp = ''10.0.0.5'', clientIp = ''10.0.0.9''\<rparr>"

section \<open>Clicks on the modal\<close>

text \<open>
  The elements of the modal that carry an \<^verbatim>\<open>onClick\<close>, the same in both files: the backdrop
  \<^verbatim>\<open>div\<close> (\<^verbatim>\<open>onClose\<close>), the content panel inside it (\<^verbatim>\<open>e.stopPropagation()\<close>), the close
  button in the panel's header (\<^verbatim>\<open>onClose\<close>) and the copy button of each code block
  (\<^verbatim>\<open>handleCopy\<close>). An element without a handler plays no part in a click, so a click on
  it counts as a click on its nearest ancestor of these four kinds.
\<close>

datatype element = Backdrop | Panel | CloseButton | CopyButton nat

datatype handler = OnClose | StopPropagation | HandleCopy nat

fun onClick :: "element \<Rightarrow> handler" where
  "onClick Backdrop = OnClose"
| "onClick Panel = StopPropagation"
| "onClick CloseButton = OnClose"
| "onClick (CopyButton i) = HandleCopy i"

text \<open>The handler-bearing elements from the target up to the root, as the JSX nests them.\<close>

fun ancestry :: "element \<Rightarrow> element list" where
  "ancestry Backdrop = [Backdrop]"
| "ancestry Panel = [Panel, Backdrop]"
| "ancestry CloseButton = [CloseButton, Panel, Backdrop]"
| "ancestry (CopyButton i) = [CopyButton i, Panel, Backdrop]"

text \<open>Bubbling: the handlers run from the target outwards, and the walk ends after a handler
  that calls \<^verbatim>\<open>stopPropagation\<close>.\<close>

fun bubble :: "element list \<Rightarrow> element list" where
  "bubble [] = []"
| "bubble (e # es) = (if onClick e = StopPropagation then [e] else e # bubble es)"

definition click :: "element \<Rightarrow> element list" where
  "click target = bubble (ancestry target)"

fun onClose_calls :: "element list \<Rightarrow> nat" where
  "onClose_calls [] = 0"
| "onClose_calls (e # es) = (if onClick e = OnClose then Suc (onClose_calls es) else onClose_calls es)"

definition inside_panel :: "element \<Rightarrow> bool" where
  "inside_panel target = (Panel \<in> set (ancestry target))"

section \<open>Facts about the operations\<close>

lemmas CodeBlock_ops = setCopied_def setTimeout_def writeText_def handleCopy_def
  handleCopy_000_def onFulfilled_def settle_def elapse_def

lemmas modal_defs = server_blocks_def client_blocks_def server_steps_def client_steps_def
  step_block_def server_blocks_000_def client_blocks_000_def

lemma fire_fields [simp]:
  "mounted (fire ts s) = mounted s"
  "timers (fire ts s) = timers s"
  "fulfilled (fire ts s) = fulfilled s"
  "writes (fire ts s) = writes s"
  "inflight (fire ts s) = inflight s"
  "clock (fire ts s) = clock s"
  "children (fire ts s) = children s"
  "clipboard (fire ts s) = clipboard s"
  "unhandled (fire ts s) = unhandled s"
  by (induction ts arbitrary: s; simp add: setCopied_def)+

lemma copied_fire:
  "copied (fire ts s) = (if ts = [] \<or> \<not> mounted s then copied s else False)"
  by (induction ts arbitrary: s) (auto simp: setCopied_def)

lemma dropped_fire:
  "dropped (fire ts s) = (if mounted s then dropped s else dropped s + length ts)"
  by (induction ts arbitrary: s) (auto simp: setCopied_def)

lemma elapse_fields:
  "copied (elapse d s)
     = (if due (clock s + d) (timers s) = [] \<or> \<not> mounted s then copied s else False)"
  "timers (elapse d s) = later (clock s + d) (timers s)"
  "clock (elapse d s) = clock s + d"
  "mounted (elapse d s) = mounted s"
  "children (elapse d s) = children s"
  "inflight (elapse d s) = inflight s"
  "dropped (elapse d s)
     = (if mounted s then dropped s else dropped s + length (due (clock s + d) (timers s)))"
  by (simp_all add: elapse_def Let_def copied_fire dropped_fire)

text \<open>Neither \<^verbatim>\<open>handleCopy\<close> touches the flag, the timers or the clock.\<close>

lemma hc_fields:
  assumes "hc = handleCopy \<or> hc = handleCopy_000"
  shows "copied (hc s) = copied s" "fulfilled (hc s) = fulfilled s" "timers (hc s) = timers s"
    "mounted (hc s) = mounted s" "clock (hc s) = clock s" "dropped (hc s) = dropped s"
  using assms
  by (auto simp: handleCopy_def handleCopy_000_def writeText_def Let_def split: if_splits)


lemma copied_rise:
  assumes "hc = handleCopy \<or> hc = handleCopy_000" "\<not> copied s" "copied (exec hc e s)"
  shows "\<exists>k. e = Settle k Fulfilled \<and> k < length (inflight s)"
  using assms(2,3) hc_fields(1)[OF assms(1)]
  by (cases e) (auto simp: settle_def onFulfilled_def setCopied_def setTimeout_def elapse_def
      copied_fire Let_def split: if_splits outcome.splits)

lemma copied_fall:
  assumes "hc = handleCopy \<or> hc = handleCopy_000" "copied s" "\<not> copied (exec hc e s)"
  shows "\<exists>d. e = Elapse d \<and> due (clock s + d) (timers s) \<noteq> []"
  using assms(2,3) hc_fields(1)[OF assms(1)]
  by (cases e) (auto simp: settle_def onFulfilled_def setCopied_def setTimeout_def elapse_def
      copied_fire Let_def split: if_splits outcome.splits)

lemma fulfilled_exec:
  assumes "hc = handleCopy \<or> hc = handleCopy_000"
  shows "fulfilled (exec hc e s)
     = (if \<exists>k. e = Settle k Fulfilled \<and> k < length (inflight s)
        then Suc (fulfilled s) else fulfilled s)"
  using hc_fields(2)[OF assms]
  by (cases e) (auto simp: settle_def onFulfilled_def setCopied_def setTimeout_def elapse_def
      Let_def split: if_splits outcome.splits)

lemma copied_needs_fulfilled_exec:
  assumes "hc = handleCopy \<or> hc = handleCopy_000" "copied s \<longrightarrow> 0 < fulfilled s"
  shows "copied (exec hc e s) \<longrightarrow> 0 < fulfilled (exec hc e s)"
proof (cases "copied s")
  case True
  with assms show ?thesis by (simp add: fulfilled_exec)
next
  case False
  show ?thesis
  proof
    assume "copied (exec hc e s)"
    from copied_rise[OF assms(1) False this] show "0 < fulfilled (exec hc e s)"
      by (auto simp: fulfilled_exec[OF assms(1)])
  qed
qed

lemma copied_needs_fulfilled_run:
  assumes "hc = handleCopy \<or> hc = handleCopy_000" "copied s \<longrightarrow> 0 < fulfilled s"
  shows "copied (run hc es s) \<longrightarrow> 0 < fulfilled (run hc es s)"
  using assms(2)
proof (induction es arbitrary: s)
  case Nil
  then show ?case by simp
next
  case (Cons e es)
  show ?case
    using Cons.IH[OF copied_needs_fulfilled_exec[OF assms(1) Cons.prems]] by simp
qed

lemma fulfilments_Cons: "fulfilments (e # es) = fulfilments [e] + fulfilments es"
proof (cases e)
  case (Settle k r)
  then show ?thesis by (cases r) simp_all
qed simp_all

lemma fulfilled_exec_le:
  assumes "hc = handleCopy \<or> hc = handleCopy_000"
  shows "fulfilled (exec hc e s) \<le> fulfilled s + fulfilments [e]"
proof (cases e)
  case (Settle k r)
  then show ?thesis unfolding fulfilled_exec[OF assms] by (cases r) simp_all
qed (simp_all add: fulfilled_exec[OF assms] del: exec.simps)

lemma fulfilled_run_le:
  assumes "hc = handleCopy \<or> hc = handleCopy_000"
  shows "fulfilled (run hc es s) \<le> fulfilled s + fulfilments es"
proof (induction es arbitrary: s)
  case Nil
  show ?case by simp
next
  case (Cons e es)
  have "fulfilled (run hc (e # es) s) \<le> fulfilled (exec hc e s) + fulfilments es"
    using Cons.IH[of "exec hc e s"] by simp
  also have "\<dots> \<le> fulfilled s + fulfilments [e] + fulfilments es"
    using fulfilled_exec_le[OF assms, of e s] by simp
  finally show ?case using fulfilments_Cons[of e es] by simp
qed

lemma never_copied_without_fulfilment:
  assumes "hc = handleCopy \<or> hc = handleCopy_000"
  shows "copied (run hc evs (mount c t))
          \<longrightarrow> 0 < fulfilled (run hc evs (mount c t)) \<and> 0 < fulfilments evs"
proof -
  have m: "copied (mount c t) \<longrightarrow> 0 < fulfilled (mount c t)" "fulfilled (mount c t) = 0"
    by (simp_all add: mount_def)
  show ?thesis
    using copied_needs_fulfilled_run[OF assms m(1), of evs]
      fulfilled_run_le[OF assms, of evs "mount c t"] m(2)
    by auto
qed

lemma due_append: "due t (xs @ ys) = due t xs @ due t ys"
  by (induction xs) simp_all

lemma due_later_empty:
  "due t (later t0 ts) = [] \<longleftrightarrow> (\<forall>x\<in>set ts. x \<le> t0 \<or> t < x)"
  by (induction ts) auto

text \<open>A click whose clipboard write is fulfilled \<open>l\<close> milliseconds later.\<close>

lemma after_slow_copy:
  assumes "hc = handleCopy \<or> hc = handleCopy_000" "mounted s" "truthy (children s)"
    and "s' = run hc [Click, Elapse l, Settle (length (inflight s)) Fulfilled] s"
  shows "copied s'" "timers s' = later (clock s + l) (timers s) @ [clock s + l + 2000]"
    "mounted s'" "clock s' = clock s + l"
proof -
  define s1 where "s1 = exec hc Click s"
  have f1: "inflight s1 = inflight s @ [last (inflight s1)]" "timers s1 = timers s"
    "mounted s1" "clock s1 = clock s"
    using assms(1-3)
    by (auto simp: s1_def handleCopy_def handleCopy_000_def writeText_def Let_def)
  define s2 where "s2 = elapse l s1"
  have f2: "length (inflight s) < length (inflight s2)"
    "timers s2 = later (clock s + l) (timers s)" "mounted s2" "clock s2 = clock s + l"
    using f1(2-4) f1(1)
    by (simp_all add: s2_def elapse_fields) (metis length_append_singleton lessI)
  have r: "s' = settle (length (inflight s)) Fulfilled s2"
    by (simp add: assms(4) s1_def s2_def)
  show "copied s'" "timers s' = later (clock s + l) (timers s) @ [clock s + l + 2000]"
    "mounted s'" "clock s' = clock s + l"
    unfolding r using f2
    by (simp_all add: settle_def onFulfilled_def setCopied_def setTimeout_def Let_def)
qed



lemma shown_here: "displayed b = ps @ txt @ ss \<Longrightarrow> shown_in txt (b # bs)"
  by (simp add: sublist_def) blast

section \<open>Copying\<close>

text \<open>
  C1. For a non-empty command string \<open>S\<close> shown in a mounted code block, a click on the copy
  button makes exactly one \<^verbatim>\<open>writeText\<close> call, with payload \<open>S\<close>, the text on the screen,
  unchanged; settling the promise adds no further write, and when it is fulfilled the
  clipboard holds \<open>S\<close>. This holds for the \<^verbatim>\<open>handleCopy\<close> of both files.
\<close>

theorem copy_writes_displayed_text:
  assumes "S \<noteq> []" and "mounted s" and "children s = Str S"
  shows "displayed (children s) = S
     \<and> writes (exec handleCopy Click s) = writes s @ [S]
     \<and> writes (exec handleCopy_000 Click s) = writes s @ [S]
     \<and> (\<forall>r. writes (run handleCopy [Click, Settle (length (inflight s)) r] s) = writes s @ [S])
     \<and> (\<forall>r. writes (run handleCopy_000 [Click, Settle (length (inflight s)) r] s) = writes s @ [S])
     \<and> clipboard (run handleCopy [Click, Settle (length (inflight s)) Fulfilled] s) = Some S
     \<and> clipboard (run handleCopy_000 [Click, Settle (length (inflight s)) Fulfilled] s) = Some S"
  using assms by (auto simp: CodeBlock_ops Let_def split: outcome.splits)

theorem copy_writes_displayed_text_witness:
  "'' ls  -l '' \<noteq> [] \<and> mounted (mount (Str '' ls  -l '') 0)
   \<and> children (mount (Str '' ls  -l '') 0) = Str '' ls  -l ''
   \<and> writes (exec handleCopy Click (mount (Str '' ls  -l '') 0)) = ['' ls  -l '']
   \<and> writes (exec handleCopy_000 Click (mount (Str '' ls  -l '') 0)) = ['' ls  -l '']
   \<and> clipboard (run handleCopy [Click, Settle 0 Fulfilled] (mount (Str '' ls  -l '') 0))
       = Some '' ls  -l ''"
  using copy_writes_displayed_text [of "'' ls  -l ''" "mount (Str '' ls  -l '') 0"]
  by (simp add: mount_def)



section \<open>The Copied! flag\<close>

text \<open>
  C5, as the code has it. The flag is false when the block is mounted. On a mounted block
  with a non-empty text, a click whose clipboard write is fulfilled \<open>l\<close> milliseconds later
  sets the flag at the fulfilment (the label reads Copied!) and schedules a reset 2000 ms
  after the fulfilment, next to the resets that are still pending. After \<open>d\<close> further
  milliseconds the flag is still set exactly when \<open>d < 2000\<close> and no reset that was pending
  at the fulfilment has come due. With no earlier reset pending this is: set at 1999 ms,
  cleared at 2000 ms. Both files.
\<close>

theorem copied_flag_after_fulfilment:
  assumes "hc = handleCopy \<or> hc = handleCopy_000" and "mounted s" and "truthy (children s)"
  shows "\<not> copied (mount c t)
     \<and> copied (run hc [Click, Elapse l, Settle (length (inflight s)) Fulfilled] s)
     \<and> button_label (run hc [Click, Elapse l, Settle (length (inflight s)) Fulfilled] s)
          = Text ''Copied!''
     \<and> timers (run hc [Click, Elapse l, Settle (length (inflight s)) Fulfilled] s)
          = later (clock s + l) (timers s) @ [clock s + l + 2000]
     \<and> copied (run hc [Click, Elapse l, Settle (length (inflight s)) Fulfilled, Elapse d] s)
          = (d < 2000 \<and> (\<forall>x\<in>set (timers s). x \<le> clock s + l \<or> clock s + l + d < x))
     \<and> (timers s = [] \<longrightarrow>
          copied (run hc [Click, Elapse l, Settle (length (inflight s)) Fulfilled, Elapse d] s)
            = (d < 2000)
        \<and> button_label (run hc [Click, Elapse l, Settle (length (inflight s)) Fulfilled,
                                Elapse d] s)
            = (if d < 2000 then Text ''Copied!'' else ClipboardIcon))"
proof -
  define s' where "s' = run hc [Click, Elapse l, Settle (length (inflight s)) Fulfilled] s"
  note f = after_slow_copy[OF assms s'_def]
  have r: "run hc [Click, Elapse l, Settle (length (inflight s)) Fulfilled, Elapse d] s
      = elapse d s'"
    by (simp add: s'_def)
  have "copied (elapse d s')
      = (d < 2000 \<and> due (clock s + l + d) (later (clock s + l) (timers s)) = [])"
    using f by (auto simp: elapse_fields due_append)
  then have k: "copied (elapse d s')
      = (d < 2000 \<and> (\<forall>x\<in>set (timers s). x \<le> clock s + l \<or> clock s + l + d < x))"
    by (simp add: due_later_empty)
  show ?thesis unfolding r s'_def[symmetric] using f(1,2) k
    by (simp add: button_label_def mount_def)
qed

theorem copied_flag_after_fulfilment_witness:
  "mounted (mount (Str ''ls'') 7) \<and> truthy (children (mount (Str ''ls'') 7))
   \<and> timers (mount (Str ''ls'') 7) = []
   \<and> copied (run handleCopy [Click, Elapse 30, Settle 0 Fulfilled] (mount (Str ''ls'') 7))
   \<and> copied (run handleCopy [Click, Elapse 30, Settle 0 Fulfilled, Elapse 1999]
               (mount (Str ''ls'') 7))
   \<and> \<not> copied (run handleCopy [Click, Elapse 30, Settle 0 Fulfilled, Elapse 2000]
                 (mount (Str ''ls'') 7))
   \<and> copied (run handleCopy_000 [Click, Elapse 30, Settle 0 Fulfilled, Elapse 1999]
               (mount (Str ''ls'') 7))
   \<and> \<not> copied (run handleCopy_000 [Click, Elapse 30, Settle 0 Fulfilled, Elapse 2000]
                 (mount (Str ''ls'') 7))"
  using copied_flag_after_fulfilment [of handleCopy "mount (Str ''ls'') 7" "Str ''ls''" 7 30 1999]
        copied_flag_after_fulfilment [of handleCopy "mount (Str ''ls'') 7" "Str ''ls''" 7 30 2000]
        copied_flag_after_fulfilment [of handleCopy_000 "mount (Str ''ls'') 7" "Str ''ls''" 7 30 1999]
        copied_flag_after_fulfilment [of handleCopy_000 "mount (Str ''ls'') 7" "Str ''ls''" 7 30 2000]
  by (simp add: mount_def)

text \<open>
  C5 as the claim states it fails: a block is copied at 0 ms and clicked again at 1500 ms;
  the second write is fulfilled at 1520 ms and the flag is set, but 480 ms later, at
  2000 ms, the reset of the first copy fires and clears it.
\<close>

theorem second_copy_cleared_early:
  "copied (run handleCopy [Click, Settle 0 Fulfilled, Elapse 1500, Click, Elapse 20,
             Settle 0 Fulfilled] (mount (Str ''ls'') 0))
   \<and> \<not> copied (run handleCopy [Click, Settle 0 Fulfilled, Elapse 1500, Click, Elapse 20,
                   Settle 0 Fulfilled, Elapse 480] (mount (Str ''ls'') 0))"
  by (simp add: CodeBlock_ops mount_def Let_def)

text \<open>
  C6. When a pending clipboard write is rejected, the flag, the label, the timers, the list
  of \<^verbatim>\<open>writeText\<close> calls (no retry), the clipboard, the children and the mounted state are
  all as before; only the settled promise leaves the pending list. And over any sequence
  of events without a fulfilment, starting from a fresh block, the flag is never set.
\<close>

theorem rejected_write_is_silent:
  assumes "k < length (inflight s)"
  shows "copied (settle k Rejected s) = copied s
     \<and> button_label (settle k Rejected s) = button_label s
     \<and> timers (settle k Rejected s) = timers s
     \<and> writes (settle k Rejected s) = writes s
     \<and> inflight (settle k Rejected s) = take k (inflight s) @ drop (Suc k) (inflight s)
     \<and> clipboard (settle k Rejected s) = clipboard s
     \<and> mounted (settle k Rejected s) = mounted s
     \<and> children (settle k Rejected s) = children s
     \<and> (fulfilments evs = 0 \<longrightarrow> \<not> copied (run handleCopy evs (mount c t))
                                 \<and> \<not> copied (run handleCopy_000 evs (mount c t)))"
proof -
  have "fulfilments evs = 0 \<longrightarrow> \<not> copied (run hc evs (mount c t))"
    if "hc = handleCopy \<or> hc = handleCopy_000" for hc
    using never_copied_without_fulfilment[OF that, of evs c t] by auto
  then show ?thesis using assms by (simp add: settle_def Let_def button_label_def)
qed

theorem rejected_write_is_silent_witness:
  "0 < length (inflight (exec handleCopy Click (mount (Str ''ls'') 0)))
   \<and> \<not> copied (settle 0 Rejected (exec handleCopy Click (mount (Str ''ls'') 0)))
   \<and> writes (settle 0 Rejected (exec handleCopy Click (mount (Str ''ls'') 0))) = [''ls'']
   \<and> timers (settle 0 Rejected (exec handleCopy Click (mount (Str ''ls'') 0))) = []
   \<and> fulfilments [Click, Settle 0 Rejected, Elapse 5000, Click, Settle 0 Rejected] = 0
   \<and> \<not> copied (run handleCopy [Click, Settle 0 Rejected, Elapse 5000, Click, Settle 0 Rejected]
                  (mount (Str ''ls'') 0))"
  using rejected_write_is_silent [of 0 "exec handleCopy Click (mount (Str ''ls'') 0)"
      "[Click, Settle 0 Rejected, Elapse 5000, Click, Settle 0 Rejected]" "Str ''ls''" 0]
  by (simp add: CodeBlock_ops mount_def Let_def)

text \<open>
  C10. Over every sequence of events on a block mounted with any children: the flag starts
  false; whenever it is set, the \<^verbatim>\<open>then\<close> callback of some clipboard write of this block
  has run before (and the sequence holds a fulfilment). A single event sets the flag only
  if it is the fulfilment of a pending write, and clears it only if it is the passing of
  time up to the deadline of a pending timer. A re-render, a click and a rejected write
  leave the flag as it is. Both files.
\<close>

theorem copied_only_after_fulfilment:
  assumes "hc = handleCopy \<or> hc = handleCopy_000"
  shows "\<not> copied (mount c t)
     \<and> (copied (run hc evs (mount c t))
          \<longrightarrow> 0 < fulfilled (run hc evs (mount c t)) \<and> 0 < fulfilments evs)
     \<and> (\<not> copied s \<and> copied (exec hc e s)
          \<longrightarrow> (\<exists>k. e = Settle k Fulfilled \<and> k < length (inflight s)))
     \<and> (copied s \<and> \<not> copied (exec hc e s)
          \<longrightarrow> (\<exists>d. e = Elapse d \<and> due (clock s + d) (timers s) \<noteq> []))
     \<and> copied (exec hc (Render c') s) = copied s
     \<and> copied (exec hc Click s) = copied s
     \<and> copied (exec hc (Settle j Rejected) s) = copied s"
proof -
  have b: "copied (exec hc (Render c') s) = copied s" "copied (exec hc Click s) = copied s"
     "copied (exec hc (Settle j Rejected) s) = copied s"
    using hc_fields(1)[OF assms] by (simp_all add: settle_def Let_def)
  show ?thesis
    using never_copied_without_fulfilment[OF assms, of evs c t] b
      copied_rise[OF assms, of s e] copied_fall[OF assms, of s e]
    by (simp add: mount_def)
qed

theorem copied_only_after_fulfilment_witness:
  "copied (run handleCopy [Click, Settle 0 Rejected, Click, Settle 0 Fulfilled] (mount (Str ''ls'') 0))
   \<and> 0 < fulfilled (run handleCopy [Click, Settle 0 Rejected, Click, Settle 0 Fulfilled]
                      (mount (Str ''ls'') 0))
   \<and> \<not> copied (exec handleCopy Click (mount (Str ''ls'') 0))
   \<and> copied (exec handleCopy (Settle 0 Fulfilled) (exec handleCopy Click (mount (Str ''ls'') 0)))"
  using copied_only_after_fulfilment [of handleCopy "Str ''ls''" 0
      "[Click, Settle 0 Rejected, Click, Settle 0 Fulfilled]"
      "exec handleCopy Click (mount (Str ''ls'') 0)" "Settle 0 Fulfilled"]
  by (simp add: CodeBlock_ops mount_def Let_def)

section \<open>Timers that nobody cancels\<close>




text \<open>
  C3, as the code has it. Neither file has a cleanup function. Unmounting leaves every
  pending timer in place; the timers fire at their deadlines as they would have, each
  calls \<^verbatim>\<open>setCopied(false)\<close> on the unmounted block, and React discards the update (the
  flag of the unmounted block keeps its value).
\<close>

theorem unmount_keeps_timers:
  "timers (exec hc Unmount s) = timers s
   \<and> timers (run hc [Unmount, Elapse d] s) = later (clock s + d) (timers s)
   \<and> dropped (run hc [Unmount, Elapse d] s) = dropped s + length (due (clock s + d) (timers s))
   \<and> copied (run hc [Unmount, Elapse d] s) = copied s"
  by (simp add: elapse_fields)

text \<open>
  C3 as the claim states it fails: a block is copied, then unmounted with its reset
  pending. The timer is still pending after the unmount, and 2000 ms later it has fired
  and called \<^verbatim>\<open>setCopied\<close> on the unmounted block.
\<close>

theorem timer_fires_after_unmount:
  "timers (run handleCopy [Click, Settle 0 Fulfilled, Unmount] (mount (Str ''ls'') 0)) = [2000]
   \<and> timers (run handleCopy [Click, Settle 0 Fulfilled, Unmount, Elapse 2000]
               (mount (Str ''ls'') 0)) = []
   \<and> dropped (run handleCopy [Click, Settle 0 Fulfilled, Unmount, Elapse 2000]
                (mount (Str ''ls'') 0)) = 1"
  by (simp add: CodeBlock_ops mount_def Let_def)

section \<open>The commands on the screen\<close>

text \<open>
  C4. For the connection Office, 10.0.0.5, 10.0.0.9: the modal of
  src/components/InstructionsModal.tsx shows \<^verbatim>\<open>nc -zv 10.0.0.5 4713\<close> in a client block and
  \<^verbatim>\<open>auth-ip-acl=127.0.0.1;10.0.0.9\<close> in a server block. The modal of part_000 shows the
  \<^verbatim>\<open>nc\<close> command too, but its server block shows neither that access list nor the client
  address anywhere: it shows the unsubstituted text \<^verbatim>\<open>${connection.clientIp}\<close>.
\<close>

theorem office_commands:
  "shown_in ''nc -zv 10.0.0.5 4713'' (client_blocks office)
 \<and> shown_in ''auth-ip-acl=127.0.0.1;10.0.0.9'' (server_blocks office)
 \<and> shown_in ''nc -zv 10.0.0.5 4713'' (client_blocks_000 office)
 \<and> \<not> shown_in ''auth-ip-acl=127.0.0.1;10.0.0.9'' (server_blocks_000 office)
 \<and> \<not> shown_in ''10.0.0.9'' (server_blocks_000 office)
 \<and> shown_in ''auth-ip-acl=127.0.0.1;${connection.clientIp}'' (server_blocks_000 office)"
  unfolding modal_defs office_def serverCommands_000_def clientCommands_000_def
  by code_simp

text \<open>
  C8, as the code has it. For every connection, both modals show
  \<^verbatim>\<open>nc -zv <serverIp> 4713\<close> and \<^verbatim>\<open>export PULSE_SERVER=tcp:<serverIp>\<close> with the server
  address as given. The mpv command of src/components/InstructionsModal.tsx is
  \<^verbatim>\<open>mpv --ao=pulse\<close> followed by the URL between double quotes; the mpv command of
  part_000 is \<^verbatim>\<open>mpv --vo=x11 --ao=pulse\<close> followed by the URL without quotes.
\<close>

theorem client_commands_shown:
  "shown_in (''nc -zv '' @ serverIp c @ '' 4713'') (client_blocks c)
 \<and> shown_in (''export PULSE_SERVER=tcp:'' @ serverIp c) (client_blocks c)
 \<and> shown_in (''mpv --ao=pulse '' @ [CHR 0x22] @ ''https://www.youtube.com/watch?v=dQw4w9WgXcQ''
               @ [CHR 0x22]) (client_blocks c)
 \<and> shown_in (''nc -zv '' @ serverIp c @ '' 4713'') (client_blocks_000 c)
 \<and> shown_in (''export PULSE_SERVER=tcp:'' @ serverIp c) (client_blocks_000 c)
 \<and> shown_in ''mpv --vo=x11 --ao=pulse https://www.youtube.com/watch?v=dQw4w9WgXcQ''
      (client_blocks_000 c)"
proof -
  have a: "shown_in (''nc -zv '' @ serverIp c @ '' 4713'') (client_blocks c)"
    by (simp add: client_blocks_def client_steps_def step_block_def)
  have b: "shown_in (''export PULSE_SERVER=tcp:'' @ serverIp c) (client_blocks c)"
    by (simp add: client_blocks_def client_steps_def step_block_def)
  have d: "shown_in (''mpv --ao=pulse '' @ [CHR 0x22]
       @ ''https://www.youtube.com/watch?v=dQw4w9WgXcQ'' @ [CHR 0x22]) (client_blocks c)"
    by (simp add: client_blocks_def client_steps_def step_block_def)
  define l1 where "l1 = ''# 1. Test connection to the server's PulseAudio port.'' @ [CHR 0x0A]
     @ ''# If this command says '' @ [CHR 0x22] @ ''succeeded!'' @ [CHR 0x22]
     @ '', you're ready for the next step.'' @ [CHR 0x0A]"
  define l2 where "l2 = [CHR 0x0A] @ [CHR 0x0A]
     @ ''# 2. Set the PULSE_SERVER environment variable.'' @ [CHR 0x0A]
     @ ''# This tells applications on this client machine to send their audio to the server.''
     @ [CHR 0x0A]"
  define l3 where "l3 = [CHR 0x0A] @ [CHR 0x0A]
     @ ''# 3. Test with an application, like mpv.'' @ [CHR 0x0A]
     @ ''# The video will play locally, but the audio should come from the server's speakers.''
     @ [CHR 0x0A]"
  define nc where "nc = ''nc -zv '' @ serverIp c @ '' 4713''"
  define ex where "ex = ''export PULSE_SERVER=tcp:'' @ serverIp c"
  define mpv where "mpv = ''mpv --vo=x11 --ao=pulse https://www.youtube.com/watch?v=dQw4w9WgXcQ''"
  have t: "clientCommands_000 c = l1 @ nc @ l2 @ ex @ l3 @ mpv"
    by (simp add: clientCommands_000_def l1_def l2_def l3_def nc_def ex_def mpv_def)
  have u: "displayed (Str (clientCommands_000 c)) = l1 @ nc @ (l2 @ ex @ l3 @ mpv)"
    "displayed (Str (clientCommands_000 c)) = (l1 @ nc @ l2) @ ex @ (l3 @ mpv)"
    "displayed (Str (clientCommands_000 c)) = (l1 @ nc @ l2 @ ex @ l3) @ mpv @ []"
    by (simp_all add: t)
  have "shown_in nc (client_blocks_000 c)" "shown_in ex (client_blocks_000 c)"
    "shown_in mpv (client_blocks_000 c)"
    unfolding client_blocks_000_def
    by (rule shown_here[OF u(1)], rule shown_here[OF u(2)], rule shown_here[OF u(3)])
  then show ?thesis using a b d unfolding nc_def ex_def mpv_def by blast
qed

text \<open>
  C8 as the claim states it fails on part_000: for the connection Office its client block
  does not show \<^verbatim>\<open>mpv --ao=pulse\<close> at all.
\<close>

theorem part_000_mpv_form:
  "\<not> shown_in ''mpv --ao=pulse'' (client_blocks_000 office)"
  unfolding modal_defs office_def clientCommands_000_def by code_simp

section \<open>Closing the modal\<close>

text \<open>
  C9, as the code has it. A click on the backdrop runs the backdrop's handler alone and
  calls \<^verbatim>\<open>onClose\<close> exactly once. A click inside the content panel never reaches the
  backdrop's handler; it calls \<^verbatim>\<open>onClose\<close> once when the target is the close button of the
  panel's header (the button's own handler), and not at all otherwise.
\<close>

theorem click_containment:
  "click Backdrop = [Backdrop] \<and> onClose_calls (click Backdrop) = 1
   \<and> (inside_panel target \<longrightarrow> Backdrop \<notin> set (click target)
         \<and> onClose_calls (click target) = (if target = CloseButton then 1 else 0))"
  by (cases target) (simp_all add: click_def inside_panel_def)

theorem click_containment_witness:
  "inside_panel (CopyButton 3) \<and> Backdrop \<notin> set (click (CopyButton 3))
   \<and> onClose_calls (click (CopyButton 3)) = 0
   \<and> inside_panel Panel \<and> onClose_calls (click Panel) = 0"
  using click_containment [of "CopyButton 3"] click_containment [of Panel]
  by (simp add: inside_panel_def)

text \<open>
  C9 as the claim states it fails: the close button lies inside the content panel, and a
  click on it calls \<^verbatim>\<open>onClose\<close> once.
\<close>

theorem close_button_inside_panel:
  "inside_panel CloseButton \<and> onClose_calls (click CloseButton) = 1"
  by (simp add: click_def inside_panel_def)

end
